theory Spec2Isabelle
  imports Main
begin

section \<open>Values of the program\<close>

text \<open>
  A thrown value or a rejection reason. The source builds \<open>Error\<close> objects itself
  (\<open>new Error(`handling job failed: ${err}`)\<close>); reading a property of an undefined
  value is a \<open>TypeError\<close>; \<open>JSON.parse\<close> throws a \<open>SyntaxError\<close>; the Prisma
  client rejects with errors of its own.
\<close>

datatype error = Error string | TypeError string | SyntaxError string | PrismaError string

text \<open>What a template literal \<open>`${err}`\<close> prints for an error object: name, colon, message.\<close>

fun toString :: "error \<Rightarrow> string" where
  "toString (Error m) = ''Error: '' @ m"
| "toString (TypeError m) = ''TypeError: '' @ m"
| "toString (SyntaxError m) = ''SyntaxError: '' @ m"
| "toString (PrismaError m) = ''PrismaClientKnownRequestError: '' @ m"

text \<open>\<open>E.Either\<close> and \<open>O.Option\<close> of fp-ts; the option is HOL's.\<close>

datatype ('e, 'a) Either = Left 'e | Right 'a

text \<open>
  \<open>Input extends { id: string; data: string }\<close>: a record with at least these two
  fields. The rows of the README's schema (\<open>model Job\<close>, \<open>model DeadLetters\<close>: the two
  have the same columns) extend it with the two timestamps.
\<close>

record Input =
  id' :: string
  data :: string

record Job = Input +
  createdAt :: nat
  updatedAt :: nat

section \<open>The store\<close>

text \<open>
  Modelled from the spec: the Prisma client and its database are not part of the
  repository. The database holds the two tables of the README's schema and the business
  data of the application (of any type); \<open>cuids\<close> counts the identifiers handed out by
  \<open>@default(cuid())\<close> and \<open>now\<close> is the clock behind \<open>@default(now())\<close>.
\<close>

record 'b db =
  job :: "Job list"
  deadLetters :: "Job list"
  business :: 'b
  cuids :: nat
  now :: nat

datatype log_line = Info string | ErrorLine string

text \<open>
  The world outside the program: the committed database, what the logger has printed,
  and the availability of the store, as a schedule: each call that reaches the store takes
  the head of \<open>faults\<close>, and \<open>True\<close> there means that this call finds the store
  unreachable. An empty schedule is a store that is always reachable.
\<close>

record 'b world =
  db :: "'b db"
  console :: "log_line list"
  faults :: "bool list"

definition outage :: "'b world \<Rightarrow> bool" where
  "outage w = (case faults w of [] \<Rightarrow> False | f # _ \<Rightarrow> f)"

definition tick :: "'b world \<Rightarrow> 'b world" where
  "tick w = w\<lparr>faults := tl (faults w)\<rparr>"

text \<open>
  A promise-returning call: run on a world, it rejects (\<open>Inl\<close>) or fulfils (\<open>Inr\<close>) and
  leaves a world. A call on a transaction handle works on the handle's view of the
  database, which is passed along explicitly.
\<close>

type_synonym ('b, 'a) Promise = "'b world \<Rightarrow> (error + 'a) \<times> 'b world"

type_synonym ('b, 'a) TxCall = "'b db \<Rightarrow> error + ('a \<times> 'b db)"

definition resolve :: "'a \<Rightarrow> ('b, 'a) Promise" where
  "resolve a = (\<lambda>w. (Inr a, w))"

definition await :: "('b, 'a) Promise \<Rightarrow> ('a \<Rightarrow> ('b, 'c) Promise) \<Rightarrow> ('b, 'c) Promise" where
  "await p k = (\<lambda>w. case p w of (Inl e, w') \<Rightarrow> (Inl e, w') | (Inr a, w') \<Rightarrow> k a w')"

text \<open>
  Modelled from the spec: a statement sent through the client itself (not inside a
  transaction) takes effect at once, or not at all when it is rejected.
\<close>

definition client :: "('b, 'a) TxCall \<Rightarrow> ('b, 'a) Promise" where
  "client stmt w =
     (if outage w then (Inl (PrismaError ''store unreachable''), tick w)
      else case stmt (db w) of
             Inl e \<Rightarrow> (Inl e, tick w)
           | Inr (a, d) \<Rightarrow> (Inr a, (tick w)\<lparr>db := d\<rparr>))"

text \<open>
  Modelled from the spec: \<open>$transaction\<close> (BeginTransaction, Commit, Rollback of the
  storage contract). The callback works on its own view of the database; when it rejects,
  the view is dropped; when it fulfils, the commit is one call to the store, which installs
  the view or fails and drops it.
\<close>

definition transaction :: "('b, 'a) TxCall \<Rightarrow> ('b, 'a) Promise" where
  "transaction body w =
     (case body (db w) of
        Inl e \<Rightarrow> (Inl e, w)
      | Inr (a, tx) \<Rightarrow>
          if outage w then (Inl (PrismaError ''commit failed''), tick w)
          else (Inr a, (tick w)\<lparr>db := tx\<rparr>))"

text \<open>Modelled from the spec: an identifier generator, one new string for each count.\<close>

definition cuid :: "nat \<Rightarrow> string" where
  "cuid n = CHR ''c'' # replicate n (CHR ''0'')"

text \<open>
  Modelled from the spec: the statements of the Prisma client that the source and the
  README use. \<open>delete({ where: { id } })\<close> rejects when no row has the identifier;
  \<open>create\<close> rejects when the identifier (the primary key) is taken;
  \<open>findFirst({ orderBy: { createdAt: "asc" } })\<close> gives the row with the least
  \<open>createdAt\<close> (the first such row of the table), or null.
\<close>

definition job_delete :: "string \<Rightarrow> ('b, unit) TxCall" where
  "job_delete i d =
     (if i \<in> set (map id' (job d))
      then Inr ((), d\<lparr>job := filter (\<lambda>r. id' r \<noteq> i) (job d)\<rparr>)
      else Inl (PrismaError ''P2025: record to delete does not exist''))"

definition deadLetters_create :: "string \<Rightarrow> string \<Rightarrow> ('b, unit) TxCall" where
  "deadLetters_create i x d =
     (if i \<in> set (map id' (deadLetters d))
      then Inl (PrismaError ''P2002: unique constraint failed'')
      else Inr ((), d\<lparr>deadLetters := deadLetters d @
                   [\<lparr>id' = i, data = x, createdAt = now d, updatedAt = now d\<rparr>]\<rparr>))"

definition job_create :: "string \<Rightarrow> ('b, unit) TxCall" where
  "job_create x d =
     (if cuid (cuids d) \<in> set (map id' (job d))
      then Inl (PrismaError ''P2002: unique constraint failed'')
      else Inr ((), d\<lparr>job := job d @
                   [\<lparr>id' = cuid (cuids d), data = x, createdAt = now d, updatedAt = now d\<rparr>],
                 cuids := Suc (cuids d)\<rparr>))"

fun oldest :: "Job list \<Rightarrow> Job option" where
  "oldest [] = None"
| "oldest (r # rs) =
     (case oldest rs of
        None \<Rightarrow> Some r
      | Some m \<Rightarrow> if createdAt r \<le> createdAt m then Some r else Some m)"

definition job_findFirst :: "('b, Job option) TxCall" where
  "job_findFirst d = Inr (oldest (job d), d)"

definition deadLetters_findMany :: "('b, Job list) TxCall" where
  "deadLetters_findMany d = Inr (deadLetters d, d)"

text \<open>The logger, a \<open>Console\<close>: \<open>info\<close> and \<open>error\<close> print a line and return.\<close>

datatype Console = Console

definition info :: "Console \<Rightarrow> string \<Rightarrow> 'b world \<Rightarrow> 'b world" where
  "info lg s w = w\<lparr>console := console w @ [Info s]\<rparr>"

definition error' :: "Console \<Rightarrow> string \<Rightarrow> 'b world \<Rightarrow> 'b world" where
  "error' lg s w = w\<lparr>console := console w @ [ErrorLine s]\<rparr>"

section \<open>The combinators of fp-ts that \<open>run\<close> uses\<close>

text \<open>
  A \<open>TaskEither\<close> is a promise of an \<open>Either\<close>, started when it is called.
  \<open>TE.tryCatch\<close> turns a rejection into a \<open>Left\<close>; \<open>TE.chain\<close> and \<open>TE.fold\<close> look
  at the \<open>Either\<close> only, so a rejection passes through both.
\<close>

definition O_match :: "'r \<Rightarrow> ('a \<Rightarrow> 'r) \<Rightarrow> 'a option \<Rightarrow> 'r" where
  "O_match onNone onSome opt = (case opt of None \<Rightarrow> onNone | Some a \<Rightarrow> onSome a)"

definition TE_fromEither :: "('e, 'a) Either \<Rightarrow> ('b, ('e, 'a) Either) Promise" where
  "TE_fromEither e = resolve e"

definition TE_tryCatch ::
  "('b, 'a) Promise \<Rightarrow> (error \<Rightarrow> 'e) \<Rightarrow> ('b, ('e, 'a) Either) Promise" where
  "TE_tryCatch f onRejected =
     (\<lambda>w. case f w of
            (Inl reason, w') \<Rightarrow> (Inr (Left (onRejected reason)), w')
          | (Inr a, w') \<Rightarrow> (Inr (Right a), w'))"

definition TE_chain ::
  "('a \<Rightarrow> ('b, ('e, 'c) Either) Promise) \<Rightarrow> ('b, ('e, 'a) Either) Promise
     \<Rightarrow> ('b, ('e, 'c) Either) Promise" where
  "TE_chain f ma = await ma (\<lambda>e. case e of Left l \<Rightarrow> resolve (Left l) | Right a \<Rightarrow> f a)"

definition TE_fold ::
  "('e \<Rightarrow> ('b, 'c) Promise) \<Rightarrow> ('a \<Rightarrow> ('b, 'c) Promise) \<Rightarrow> ('b, ('e, 'a) Either) Promise
     \<Rightarrow> ('b, 'c) Promise" where
  "TE_fold onLeft onRight ma =
     await ma (\<lambda>e. case e of Left l \<Rightarrow> onLeft l | Right a \<Rightarrow> onRight a)"

section \<open>The class \<open>DoctorJobs\<close>\<close>

text \<open>
  The fields of an instance. The Prisma client of the instance is the store of the
  world, so the functions that the constructor binds to \<open>this.client\<close> are given here
  already bound. \<open>createJob\<close> takes the transaction handle. \<open>log\<close> is the optional
  \<open>logger\<close> of the constructor: \<open>None\<close> when it was left out. \<open>parseJob\<close> is
  an ordinary function, called where it stands: it returns an \<open>Either\<close> (\<open>Inr\<close>), or
  it throws (\<open>Inl\<close>), as the README's parser does on a payload that is not JSON.
\<close>

record ('b, 'jobs, 'z, 'dl) DoctorJobs =
  parseJob :: "'z Input_scheme \<Rightarrow> error + (error, 'jobs) Either"
  getJob :: "('b, 'z Input_scheme option) Promise"
  createJob :: "'b db \<Rightarrow> string \<Rightarrow> error + (unit \<times> 'b db)"
  createDeadLetter :: "'dl \<Rightarrow> ('b, unit) Promise"
  getDeadLetters :: "('b, 'dl list) Promise"
  log :: "Console option"

text \<open>
  \<open>queue(fn)\<close>: inside one transaction, the callback, then \<open>createJob\<close> on the same
  handle with the job as JSON, then the callback's \<open>data\<close>. \<open>JSON.stringify\<close> is a
  parameter: it gives the text, or throws (a cyclic value, a BigInt).
\<close>

definition queue ::
  "('b, 'jobs, 'z, 'dl) DoctorJobs \<Rightarrow> ('jobs \<Rightarrow> error + string)
     \<Rightarrow> ('b, 'd \<times> 'jobs) TxCall \<Rightarrow> ('b, 'd) Promise" where
  "queue this JSON_stringify fn =
     transaction (\<lambda>tx.
       case fn tx of
         Inl e \<Rightarrow> Inl e
       | Inr ((dat, jb), tx1) \<Rightarrow>
           (case JSON_stringify jb of
              Inl e \<Rightarrow> Inl e
            | Inr s \<Rightarrow>
                (case createJob this tx1 s of
                   Inl e \<Rightarrow> Inl e
                 | Inr (_, tx2) \<Rightarrow> Inr (dat, tx2))))"

text \<open>The two arms of \<open>TE.fold\<close> in \<open>run\<close>, for the job \<open>jb\<close> and the logger \<open>lg\<close>.\<close>

definition run_onLeft :: "Console \<Rightarrow> 'z Input_scheme \<Rightarrow> error \<Rightarrow> ('b, unit) Promise" where
  "run_onLeft lg jb err =
     (\<lambda>w. await (client (job_delete (id' jb)))
            (\<lambda>_. client (deadLetters_create (id' jb) (data jb)))
            (error' lg (''An error occured: '' @ toString err) w))"

definition run_onRight :: "Console \<Rightarrow> 'z Input_scheme \<Rightarrow> unit \<Rightarrow> ('b, unit) Promise" where
  "run_onRight lg jb u =
     (\<lambda>w. client (job_delete (id' jb))
            (info lg (''Finished processing job with id '' @ id' jb) w))"

text \<open>
  The task that \<open>run\<close> builds for a job and starts, from the \<open>Either\<close> that
  \<open>this.parseJob(job)\<close> has returned: the handler under \<open>TE.tryCatch\<close> for a
  \<open>Right\<close>, then one of the two arms.
\<close>

definition process ::
  "('jobs \<Rightarrow> ('b, unit) Promise) \<Rightarrow> Console \<Rightarrow> 'z Input_scheme
     \<Rightarrow> (error, 'jobs) Either \<Rightarrow> ('b, unit) Promise" where
  "process handleJobs lg jb parsedJob =
     TE_fold (run_onLeft lg jb) (run_onRight lg jb)
       (TE_chain
          (\<lambda>parsed. TE_tryCatch (handleJobs parsed)
                       (\<lambda>err. Error (''handling job failed: '' @ toString err)))
          (TE_fromEither parsedJob))"

text \<open>
  What a call of \<open>run\<close> leaves behind: how the promise it returns settles, the world at
  that moment, and the promise that the \<open>Some\<close> arm of \<open>O.match\<close> has created. \<open>run\<close>
  neither awaits nor returns the value of its \<open>pipe\<close>, so that promise is not part of the
  returned one: it runs on after \<open>run\<close> has returned. The call of \<open>parseJob\<close> is in
  the body of the arm, outside \<open>TE.tryCatch\<close>: when it throws, \<open>run\<close> rejects with
  what was thrown and no task is built.
\<close>

record 'b RunOutcome =
  returned :: "error + unit"
  after :: "'b world"
  floating :: "('b, unit) Promise option"

definition run ::
  "('b, 'jobs, 'z, 'dl) DoctorJobs \<Rightarrow> ('jobs \<Rightarrow> ('b, unit) Promise) \<Rightarrow> 'b world
     \<Rightarrow> 'b RunOutcome" where
  "run this handleJobs w =
     (case log this of
        None \<Rightarrow>
          \<lparr>returned = Inl (TypeError ''Cannot read properties of undefined (reading 'info')''),
           after = w, floating = None\<rparr>
      | Some lg \<Rightarrow>
          (case getJob this (info lg ''Attempting to find job'' w) of
             (Inl e, w1) \<Rightarrow> \<lparr>returned = Inl e, after = w1, floating = None\<rparr>
           | (Inr found, w1) \<Rightarrow>
               O_match
                 \<lparr>returned = Inr (), after = info lg ''No job found'' w1, floating = None\<rparr>
                 (\<lambda>jb.
                    case parseJob this jb of
                      Inl thrown \<Rightarrow>
                        \<lparr>returned = Inl thrown,
                         after = info lg (''Running job with id '' @ id' jb) w1,
                         floating = None\<rparr>
                    | Inr parsedJob \<Rightarrow>
                        \<lparr>returned = Inr (),
                         after = info lg (''Running job with id '' @ id' jb) w1,
                         floating = Some (process handleJobs lg jb parsedJob)\<rparr>)
                 found))"

text \<open>
  One whole cycle: the call of \<open>run\<close>, then the promise it left floating, run to its end
  before anything else happens. The result is the outcome of the returned promise, the
  outcome of the floating one (when there is one) and the world at the end.
\<close>

definition run_cycle ::
  "('b, 'jobs, 'z, 'dl) DoctorJobs \<Rightarrow> ('jobs \<Rightarrow> ('b, unit) Promise) \<Rightarrow> 'b world
     \<Rightarrow> (error + unit) \<times> (error + unit) option \<times> 'b world" where
  "run_cycle this handleJobs w =
     (let r = run this handleJobs w in
      case floating r of
        None \<Rightarrow> (returned r, None, after r)
      | Some task \<Rightarrow> (case task (after r) of (x, w') \<Rightarrow> (returned r, Some x, w')))"

text \<open>
  A caller that awaits the promise of \<open>run\<close> and calls \<open>run\<close> again:
  \<open>await run(h); await run(h)\<close>. The promise of the first call settles before the task
  of that call has done anything, so the second call starts from the world the first call
  returned in. The two tasks left floating run afterwards, in the order of their creation.
  The result pairs, for each call, the outcome of its promise with the outcome of its task.
\<close>

definition drain ::
  "('b, unit) Promise option \<Rightarrow> 'b world \<Rightarrow> (error + unit) option \<times> 'b world" where
  "drain task w =
     (case task of None \<Rightarrow> (None, w) | Some t \<Rightarrow> (case t w of (x, w') \<Rightarrow> (Some x, w')))"

definition run_awaited_twice ::
  "('b, 'jobs, 'z, 'dl) DoctorJobs \<Rightarrow> ('jobs \<Rightarrow> ('b, unit) Promise) \<Rightarrow> 'b world
     \<Rightarrow> ((error + unit) \<times> (error + unit) option) \<times>
        ((error + unit) \<times> (error + unit) option) \<times> 'b world" where
  "run_awaited_twice this handleJobs w =
     (let r1 = run this handleJobs w;
          r2 = run this handleJobs (after r1);
          (x1, v1) = drain (floating r1) (after r2);
          (x2, v2) = drain (floating r2) v1
      in ((returned r1, x1), (returned r2, x2), v2))"

section \<open>The functions that the README passes to the constructor\<close>

definition readme_getJob :: "('b, Job option) Promise" where
  "readme_getJob =
     await (client job_findFirst)
       (\<lambda>found. case found of None \<Rightarrow> resolve None | Some jb \<Rightarrow> resolve (Some jb))"

text \<open>
  The README's parser, \<open>E.right(JSON.parse(job.data))\<close>: never a \<open>Left\<close>, and it
  throws where \<open>JSON.parse\<close> does. \<open>JSON.parse\<close> is a parameter.
\<close>

definition readme_parseJob ::
  "(string \<Rightarrow> error + 'jobs) \<Rightarrow> 'z Input_scheme \<Rightarrow> error + (error, 'jobs) Either" where
  "readme_parseJob JSON_parse jb =
     (case JSON_parse (data jb) of Inl thrown \<Rightarrow> Inl thrown | Inr v \<Rightarrow> Inr (Right v))"

definition readme_createJob :: "'b db \<Rightarrow> string \<Rightarrow> error + (unit \<times> 'b db)" where
  "readme_createJob tx x = job_create x tx"

definition readme_getDeadLetters :: "('b, Job list) Promise" where
  "readme_getDeadLetters = client deadLetters_findMany"

definition readme_createDeadLetter :: "Job \<Rightarrow> ('b, unit) Promise" where
  "readme_createDeadLetter jb = client (deadLetters_create (id' jb) (data jb))"

section \<open>An instance for the concrete checks\<close>

text \<open>
  The job type and the handler of the README. What the handler does for a login link
  (look the client up, make a token, send the mail) is code outside the repository and is
  a parameter here; \<open>reticulateSplines\<close> throws. The last branch of the handler, for a
  job of neither type, has no value of this type to run on.
\<close>

datatype ParsedJob = sendClientLoginLink string | reticulateSplines string

definition handleParsedJobs ::
  "(string \<Rightarrow> ('b, unit) Promise) \<Rightarrow> ParsedJob \<Rightarrow> ('b, unit) Promise" where
  "handleParsedJobs sendLink jb =
     (case jb of
        sendClientLoginLink clientId \<Rightarrow> sendLink clientId
      | reticulateSplines target \<Rightarrow>
          (\<lambda>w. (Inl (Error ''reticulateSplines is not implemented yet!''), w)))"

text \<open>
  For the checks on concrete inputs: a parser for payloads that are just the type tag
  (anything else is a parse error), a login-link action that notes the client in the
  business data, an instance built from these and the README's functions, and a world
  with given pending jobs and a given schedule of outages.
\<close>

definition example_parseJob :: "Job \<Rightarrow> error + (error, ParsedJob) Either" where
  "example_parseJob jb =
     (if data jb = ''sendClientLoginLink'' then Inr (Right (sendClientLoginLink (id' jb)))
      else if data jb = ''reticulateSplines'' then Inr (Right (reticulateSplines (id' jb)))
      else Inr (Left (Error ''unknown job type'')))"

definition example_sendLink :: "string \<Rightarrow> (string list, unit) Promise" where
  "example_sendLink clientId =
     (\<lambda>w. (Inr (), w\<lparr>db := (db w)\<lparr>business := business (db w) @ [clientId]\<rparr>\<rparr>))"

definition example :: "(string list, ParsedJob, unit Job_ext, Job) DoctorJobs" where
  "example =
     \<lparr>parseJob = example_parseJob, getJob = readme_getJob, createJob = readme_createJob,
      createDeadLetter = readme_createDeadLetter, getDeadLetters = readme_getDeadLetters,
      log = Some Console\<rparr>"

definition pending :: "string \<Rightarrow> string \<Rightarrow> nat \<Rightarrow> Job" where
  "pending i x t = \<lparr>id' = i, data = x, createdAt = t, updatedAt = t\<rparr>"

definition world0 :: "Job list \<Rightarrow> bool list \<Rightarrow> string list world" where
  "world0 js fs =
     \<lparr>db = \<lparr>job = js, deadLetters = [], business = [], cuids = 0, now = 100\<rparr>,
      console = [], faults = fs\<rparr>"

text \<open>
  A serialisation for \<open>queue\<close> that writes the type tag only, a \<open>JSON.parse\<close> that
  reads it back and throws on anything else, and a world with three pending jobs whose
  order in the table is not the order of their creation.
\<close>

definition example_stringify :: "ParsedJob \<Rightarrow> error + string" where
  "example_stringify jb =
     Inr (case jb of sendClientLoginLink clientId \<Rightarrow> ''sendClientLoginLink''
                   | reticulateSplines target \<Rightarrow> ''reticulateSplines'')"

definition example_JSON_parse :: "string \<Rightarrow> error + ParsedJob" where
  "example_JSON_parse x =
     (if x = ''sendClientLoginLink'' then Inr (sendClientLoginLink ''abc'')
      else if x = ''reticulateSplines'' then Inr (reticulateSplines ''abc'')
      else Inl (SyntaxError ''Unexpected token''))"

definition backlog :: "string list world" where
  "backlog =
     world0 [pending ''c'' ''garbage'' 30, pending ''a'' ''sendClientLoginLink'' 10,
             pending ''b'' ''reticulateSplines'' 20] []"

section \<open>Facts about the store, the task and \<open>run\<close>\<close>

lemma db_info [simp]: "db (info lg s w) = db w"
  and faults_info [simp]: "faults (info lg s w) = faults w"
  and console_info [simp]: "console (info lg s w) = console w @ [Info s]"
  by (simp_all add: info_def)

lemma db_error' [simp]: "db (error' lg s w) = db w"
  and faults_error' [simp]: "faults (error' lg s w) = faults w"
  and console_error' [simp]: "console (error' lg s w) = console w @ [ErrorLine s]"
  by (simp_all add: error'_def)

lemma outage_info [simp]: "outage (info lg s w) = outage w"
  and outage_error' [simp]: "outage (error' lg s w) = outage w"
  by (simp_all add: outage_def)

lemma db_tick [simp]: "db (tick w) = db w"
  and console_tick [simp]: "console (tick w) = console w"
  and faults_tick [simp]: "faults (tick w) = tl (faults w)"
  by (simp_all add: tick_def)

lemma client_outage: "outage w \<Longrightarrow> client stmt w = (Inl (PrismaError ''store unreachable''), tick w)"
  by (simp add: client_def)

lemma client_rejected_db: "client stmt w = (Inl e, w') \<Longrightarrow> db w' = db w"
  by (auto simp: client_def split: if_splits sum.splits)

lemma client_job_delete_fulfilled:
  "client (job_delete i) w = (Inr u, w') \<Longrightarrow>
     job (db w') = filter (\<lambda>r. id' r \<noteq> i) (job (db w)) \<and>
     deadLetters (db w') = deadLetters (db w) \<and> business (db w') = business (db w)"
  by (auto simp: client_def job_delete_def split: if_splits)

lemma filter_absent: "i \<notin> id' ` set xs \<Longrightarrow> filter (\<lambda>r. id' r \<noteq> i) xs = xs"
  by (induction xs) auto

lemma client_job_delete_reachable:
  "\<not> outage w \<Longrightarrow>
     job (db (snd (client (job_delete i) w))) = filter (\<lambda>r. id' r \<noteq> i) (job (db w))"
  by (auto simp: client_def job_delete_def filter_absent)

lemma client_job_delete_deadLetters:
  "deadLetters (db (snd (client (job_delete i) w))) = deadLetters (db w)"
  by (auto simp: client_def job_delete_def)

lemma client_deadLetters_create_fulfilled:
  "client (deadLetters_create i x) w = (Inr u, w') \<Longrightarrow>
     deadLetters (db w') = deadLetters (db w) @
        [\<lparr>id' = i, data = x, createdAt = now (db w), updatedAt = now (db w)\<rparr>] \<and>
     job (db w') = job (db w) \<and> business (db w') = business (db w)"
  by (auto simp: client_def deadLetters_create_def split: if_splits)

lemma process_parse_failed:
  "process h lg jb (Left e) v = run_onLeft lg jb e v"
  by (simp add: process_def TE_fold_def TE_chain_def TE_fromEither_def await_def resolve_def)

lemma process_handler_rejected:
  "h p v = (Inl reason, v1) \<Longrightarrow>
     process h lg jb (Right p) v =
       run_onLeft lg jb (Error (''handling job failed: '' @ toString reason)) v1"
  by (simp add: process_def TE_fold_def TE_chain_def TE_fromEither_def TE_tryCatch_def
      await_def resolve_def)

lemma process_handler_fulfilled:
  "h p v = (Inr u, v1) \<Longrightarrow>
     process h lg jb (Right p) v = run_onRight lg jb () v1"
  by (simp add: process_def TE_fold_def TE_chain_def TE_fromEither_def TE_tryCatch_def
      await_def resolve_def)

lemma run_found:
  "log this = Some lg \<Longrightarrow> getJob this (info lg ''Attempting to find job'' w) = (Inr (Some jb), w1) \<Longrightarrow>
     parseJob this jb = Inr parsedJob \<Longrightarrow>
     run this h w = \<lparr>returned = Inr (), after = info lg (''Running job with id '' @ id' jb) w1,
                     floating = Some (process h lg jb parsedJob)\<rparr>"
  by (simp add: run_def O_match_def)

lemma run_parse_throws:
  "log this = Some lg \<Longrightarrow> getJob this (info lg ''Attempting to find job'' w) = (Inr (Some jb), w1) \<Longrightarrow>
     parseJob this jb = Inl thrown \<Longrightarrow>
     run this h w = \<lparr>returned = Inl thrown,
                     after = info lg (''Running job with id '' @ id' jb) w1, floating = None\<rparr>"
  by (simp add: run_def O_match_def)

lemma run_none:
  "log this = Some lg \<Longrightarrow> getJob this (info lg ''Attempting to find job'' w) = (Inr None, w1) \<Longrightarrow>
     run this h w = \<lparr>returned = Inr (), after = info lg ''No job found'' w1, floating = None\<rparr>"
  by (simp add: run_def O_match_def)

lemma run_fetch_rejected:
  "log this = Some lg \<Longrightarrow> getJob this (info lg ''Attempting to find job'' w) = (Inl e, w1) \<Longrightarrow>
     run this h w = \<lparr>returned = Inl e, after = w1, floating = None\<rparr>"
  by (simp add: run_def)

lemma run_cycle_found:
  "log this = Some lg \<Longrightarrow> getJob this (info lg ''Attempting to find job'' w) = (Inr (Some jb), w1) \<Longrightarrow>
     parseJob this jb = Inr parsedJob \<Longrightarrow>
     run_cycle this h w =
       (Inr (),
        Some (fst (process h lg jb parsedJob (info lg (''Running job with id '' @ id' jb) w1))),
        snd (process h lg jb parsedJob (info lg (''Running job with id '' @ id' jb) w1)))"
  by (simp add: run_cycle_def run_found split: prod.splits)

lemma run_cycle_none:
  "log this = Some lg \<Longrightarrow> getJob this (info lg ''Attempting to find job'' w) = (Inr None, w1) \<Longrightarrow>
     run_cycle this h w = (Inr (), None, info lg ''No job found'' w1)"
  by (simp add: run_cycle_def run_none)

lemma run_onLeft_delete_rejected:
  "client (job_delete (id' jb)) (error' lg (''An error occured: '' @ toString err) v) = (Inl e, v1) \<Longrightarrow>
     run_onLeft lg jb err v = (Inl e, v1)"
  by (simp add: run_onLeft_def await_def)

lemma run_onLeft_delete_fulfilled:
  "client (job_delete (id' jb)) (error' lg (''An error occured: '' @ toString err) v) = (Inr u, v1) \<Longrightarrow>
     run_onLeft lg jb err v = client (deadLetters_create (id' jb) (data jb)) v1"
  by (simp add: run_onLeft_def await_def)

lemma readme_getJob_reachable:
  "\<not> outage v \<Longrightarrow> readme_getJob v = (Inr (oldest (job (db v))), tick v)"
  by (cases "oldest (job (db v))")
     (simp_all add: readme_getJob_def await_def client_def job_findFirst_def resolve_def)

lemma readme_getJob_outage:
  "outage v \<Longrightarrow> readme_getJob v = (Inl (PrismaError ''store unreachable''), tick v)"
  by (simp add: readme_getJob_def await_def client_def)

lemma faults_world0 [simp]: "faults (world0 js fs) = fs"
  and db_world0 [simp]: "db (world0 js fs) =
        \<lparr>job = js, deadLetters = [], business = [], cuids = 0, now = 100\<rparr>"
  and console_world0 [simp]: "console (world0 js fs) = []"
  by (simp_all add: world0_def)

lemma outage_db_update [simp]: "outage (w\<lparr>db := d\<rparr>) = outage w"
  by (simp add: outage_def)

lemma outage_tick: "outage (tick w) = (case tl (faults w) of [] \<Rightarrow> False | f # _ \<Rightarrow> f)"
  by (simp add: outage_def)

lemma process_failed:
  assumes "(parsedJob = Left err \<and> w3 = v) \<or>
           (\<exists>p reason. parsedJob = Right p \<and> h p v = (Inl reason, w3) \<and>
              err = Error (''handling job failed: '' @ toString reason))"
  shows "process h lg jb parsedJob v = run_onLeft lg jb err w3"
  using assms
proof (elim disjE conjE exE)
  assume "parsedJob = Left err" "w3 = v"
  then show ?thesis by (simp add: process_parse_failed)
next
  fix p reason
  assume "parsedJob = Right p" "h p v = (Inl reason, w3)"
    "err = Error (''handling job failed: '' @ toString reason)"
  then show ?thesis using process_handler_rejected [where h = h] by fastforce
qed

lemma run_onLeft_both_writes:
  assumes "\<not> outage v" "\<not> outage (tick v)"
    and "id' jb \<in> set (map id' (job (db v)))"
    and "id' jb \<notin> set (map id' (deadLetters (db v)))"
  shows "fst (run_onLeft lg jb err v) = Inr () \<and>
         job (db (snd (run_onLeft lg jb err v))) = filter (\<lambda>r. id' r \<noteq> id' jb) (job (db v)) \<and>
         deadLetters (db (snd (run_onLeft lg jb err v))) = deadLetters (db v) @
           [\<lparr>id' = id' jb, data = data jb, createdAt = now (db v), updatedAt = now (db v)\<rparr>]"
  using assms
  by (simp add: run_onLeft_def await_def client_def job_delete_def deadLetters_create_def
      outage_tick)

lemma run_onLeft_fulfils_iff:
  "fst (run_onLeft lg jb err v) = Inr () \<longleftrightarrow>
     \<not> outage v \<and> id' jb \<in> set (map id' (job (db v))) \<and>
     \<not> outage (tick v) \<and> id' jb \<notin> set (map id' (deadLetters (db v)))"
  by (simp add: run_onLeft_def await_def client_def job_delete_def deadLetters_create_def
      outage_tick)

lemma run_onLeft_deadLetters:
  "deadLetters (db (snd (run_onLeft lg jb err v))) =
     (if fst (run_onLeft lg jb err v) = Inr ()
      then deadLetters (db v) @
        [\<lparr>id' = id' jb, data = data jb, createdAt = now (db v), updatedAt = now (db v)\<rparr>]
      else deadLetters (db v))"
  by (simp add: run_onLeft_def await_def client_def job_delete_def deadLetters_create_def)

lemmas run_eval = run_cycle_def run_def O_match_def process_def TE_fold_def TE_chain_def
  TE_fromEither_def TE_tryCatch_def await_def resolve_def run_onLeft_def run_onRight_def
  client_def job_delete_def deadLetters_create_def job_findFirst_def readme_getJob_def
  outage_def tick_def info_def error'_def example_def example_parseJob_def
  handleParsedJobs_def example_sendLink_def pending_def world0_def Let_def

lemma queue_callback_throws: "fn (db w) = Inl e \<Longrightarrow> queue this S fn w = (Inl e, w)"
  by (simp add: queue_def transaction_def)

lemma queue_rejected_db: "queue this S fn w = (Inl e, w') \<Longrightarrow> db w' = db w"
  by (auto simp: queue_def transaction_def split: sum.splits prod.splits if_splits)

lemma queue_fulfilled:
  "queue this S fn w = (Inr r, w') \<Longrightarrow>
     \<exists>jb tx1 s tx2. fn (db w) = Inr ((r, jb), tx1) \<and> S jb = Inr s \<and>
        createJob this tx1 s = Inr ((), tx2) \<and> db w' = tx2"
  by (auto simp: queue_def transaction_def split: sum.splits prod.splits if_splits)

lemma readme_createJob_fulfilled:
  "readme_createJob tx s = Inr (u, tx2) \<Longrightarrow>
     job tx2 = job tx @ [\<lparr>id' = cuid (cuids tx), data = s, createdAt = now tx, updatedAt = now tx\<rparr>] \<and>
     business tx2 = business tx \<and> deadLetters tx2 = deadLetters tx"
  by (auto simp: readme_createJob_def job_create_def split: if_splits)

lemma oldest_Nil_iff: "oldest xs = None \<longleftrightarrow> xs = []"
  by (cases xs) (auto split: option.splits)

lemma oldest_mem: "oldest xs = Some m \<Longrightarrow> m \<in> set xs"
  by (induction xs arbitrary: m) (auto split: option.splits if_splits)

lemma oldest_least: "oldest xs = Some m \<Longrightarrow> r \<in> set xs \<Longrightarrow> createdAt m \<le> createdAt r"
proof (induction xs arbitrary: m)
  case Nil
  then show ?case by simp
next
  case (Cons a xs)
  show ?case
  proof (cases "oldest xs")
    case None
    then have "xs = []" by (simp add: oldest_Nil_iff)
    with Cons.prems show ?thesis by simp
  next
    case (Some m')
    have ih: "r \<in> set xs \<Longrightarrow> createdAt m' \<le> createdAt r"
      using Cons.IH [OF Some] .
    from Cons.prems Some ih show ?thesis
      by (cases "createdAt a \<le> createdAt m'") (auto split: if_splits)
  qed
qed

lemma oldest_strict_min:
  assumes "j \<in> set xs" and "\<forall>r\<in>set xs. r \<noteq> j \<longrightarrow> createdAt j < createdAt r"
  shows "oldest xs = Some j"
proof -
  from assms(1) have "xs \<noteq> []" by auto
  then obtain m where m: "oldest xs = Some m"
    using oldest_Nil_iff by (cases "oldest xs") auto
  from oldest_least [OF m assms(1)] have "createdAt m \<le> createdAt j" .
  moreover from oldest_mem [OF m] have "m \<in> set xs" .
  ultimately have "m = j" using assms(2) by force
  with m show ?thesis by simp
qed

lemma run_onLeft_reliable:
  assumes "faults v = []"
  shows "job (db (snd (run_onLeft lg jb err v))) = filter (\<lambda>r. id' r \<noteq> id' jb) (job (db v)) \<and>
         faults (snd (run_onLeft lg jb err v)) = []"
  using assms
  by (simp add: run_onLeft_def await_def client_def job_delete_def deadLetters_create_def
      outage_def filter_absent)

lemma run_onRight_reliable:
  assumes "faults v = []"
  shows "job (db (snd (run_onRight lg jb u v))) = filter (\<lambda>r. id' r \<noteq> id' jb) (job (db v)) \<and>
         faults (snd (run_onRight lg jb u v)) = []"
  using assms
  by (simp add: run_onRight_def client_def job_delete_def outage_def filter_absent)

lemma process_reliable:
  assumes rel: "faults v = []"
    and quiet: "\<forall>p u. faults u = [] \<longrightarrow>
                  faults (snd (h p u)) = [] \<and> job (db (snd (h p u))) = job (db u)"
  shows "job (db (snd (process h lg jb parsedJob v))) =
           filter (\<lambda>r. id' r \<noteq> id' jb) (job (db v)) \<and>
         faults (snd (process h lg jb parsedJob v)) = []"
proof (cases parsedJob)
  case (Left e)
  then show ?thesis by (simp add: process_parse_failed run_onLeft_reliable [OF rel])
next
  case (Right p)
  obtain x v1 where hp: "h p v = (x, v1)" by (cases "h p v")
  from quiet rel have "faults (snd (h p v)) = [] \<and> job (db (snd (h p v))) = job (db v)"
    by blast
  with hp have rel1: "faults v1 = []" and v1: "job (db v1) = job (db v)" by simp_all
  show ?thesis
  proof (cases x)
    case (Inl reason)
    with hp have "process h lg jb (Right p) v =
        run_onLeft lg jb (Error (''handling job failed: '' @ toString reason)) v1"
      using process_handler_rejected [where h = h] by fastforce
    then show ?thesis using run_onLeft_reliable [OF rel1] v1 Right by simp
  next
    case (Inr u)
    with hp have "process h lg jb (Right p) v = run_onRight lg jb () v1"
      using process_handler_fulfilled [where h = h] by fastforce
    then show ?thesis using run_onRight_reliable [OF rel1] v1 Right by simp
  qed
qed

lemma cycle_takes_oldest:
  fixes this :: "('b, 'jobs, unit Job_ext, 'dl) DoctorJobs"
  assumes lg: "log this = Some lg" and gj: "getJob this = readme_getJob"
    and rel: "faults w = []"
    and quiet: "\<forall>p u. faults u = [] \<longrightarrow>
                  faults (snd (h p u)) = [] \<and> job (db (snd (h p u))) = job (db u)"
    and old: "oldest (job (db w)) = Some j"
    and parses: "parseJob this j = Inr parsedJob"
  shows "floating (run this h w) = Some (process h lg j parsedJob) \<and>
         job (db (snd (snd (run_cycle this h w)))) = filter (\<lambda>r. id' r \<noteq> id' j) (job (db w)) \<and>
         faults (snd (snd (run_cycle this h w))) = []"
proof -
  let ?w0 = "info lg ''Attempting to find job'' w"
  let ?v2 = "info lg (''Running job with id '' @ id' j) (tick ?w0)"
  have "\<not> outage ?w0" using rel by (simp add: outage_def)
  then have fetched: "getJob this ?w0 = (Inr (Some j), tick ?w0)"
    using old by (simp add: gj readme_getJob_reachable)
  have f: "floating (run this h w) = Some (process h lg j parsedJob)"
    by (simp add: run_found [OF lg fetched parses])
  have c: "run_cycle this h w =
      (Inr (), Some (fst (process h lg j parsedJob ?v2)), snd (process h lg j parsedJob ?v2))"
    by (rule run_cycle_found [OF lg fetched parses])
  have rel2: "faults ?v2 = []" using rel by simp
  have j2: "job (db ?v2) = job (db w)" by simp
  from process_reliable [OF rel2 quiet, of lg j parsedJob] f show ?thesis
    unfolding c j2 by simp
qed

lemma cycle_on_empty_queue:
  fixes this :: "('b, 'jobs, unit Job_ext, 'dl) DoctorJobs"
  assumes lg: "log this = Some lg" and gj: "getJob this = readme_getJob"
    and rel: "faults w = []" and empty: "job (db w) = []"
  shows "floating (run this h w) = None"
proof -
  let ?w0 = "info lg ''Attempting to find job'' w"
  have "\<not> outage ?w0" using rel by (simp add: outage_def)
  then have "getJob this ?w0 = (Inr None, tick ?w0)"
    using empty by (simp add: gj readme_getJob_reachable)
  then show ?thesis by (simp add: run_none [OF lg])
qed

lemma take_strict_min:
  assumes s: "set xs = insert j S" and d: "distinct (map id' xs)" and n: "j \<notin> S"
    and m: "\<forall>r\<in>S. createdAt j < createdAt r"
  shows "oldest xs = Some j \<and> set (filter (\<lambda>r. id' r \<noteq> id' j) xs) = S \<and>
         distinct (map id' (filter (\<lambda>r. id' r \<noteq> id' j) xs))"
proof -
  from s have jin: "j \<in> set xs" by simp
  from s m have "\<forall>r\<in>set xs. r \<noteq> j \<longrightarrow> createdAt j < createdAt r" by auto
  with jin have o: "oldest xs = Some j" by (rule oldest_strict_min)
  from d have inj: "inj_on id' (set xs)" by (simp add: distinct_map)
  have "\<And>r. r \<in> set xs \<Longrightarrow> (id' r \<noteq> id' j) = (r \<noteq> j)"
    using inj jin by (auto dest: inj_onD)
  then have "set (filter (\<lambda>r. id' r \<noteq> id' j) xs) = set xs - {j}" by auto
  with s n have f: "set (filter (\<lambda>r. id' r \<noteq> id' j) xs) = S" by auto
  from d have "distinct (map id' (filter (\<lambda>r. id' r \<noteq> id' j) xs))"
    by (rule distinct_map_filter)
  with o f show ?thesis by simp
qed

section \<open>Enqueueing inside a transaction\<close>

text \<open>
  C1. \<open>queue\<close> is all or nothing. When the callback throws, \<open>queue\<close> rejects with
  that error and the world is untouched: no Job row, none of the callback's writes. Every
  rejection of \<open>queue\<close> (the callback, \<open>JSON.stringify\<close>, \<open>createJob\<close> or the commit)
  leaves the database as it was. When the callback returns \<open>data\<close> and a job and
  \<open>queue\<close> fulfils (the transaction has committed), it fulfils with that \<open>data\<close>, and
  the committed database is the callback's view of it (so its business data) with one more
  Job row, whose payload is the serialisation of the job; this last part is for the
  README's \<open>createJob\<close>.
\<close>

theorem queue_atomic:
  fixes fn :: "('b, 'd \<times> 'jobs) TxCall"
  shows "(\<forall>e. fn (db w) = Inl e \<longrightarrow> queue this S fn w = (Inl e, w)) \<and>
         (\<forall>e w'. queue this S fn w = (Inl e, w') \<longrightarrow> db w' = db w) \<and>
         (\<forall>dat jb tx1 r w'.
             createJob this = readme_createJob \<and> fn (db w) = Inr ((dat, jb), tx1) \<and>
             queue this S fn w = (Inr r, w') \<longrightarrow>
               r = dat \<and> business (db w') = business tx1 \<and>
               deadLetters (db w') = deadLetters tx1 \<and>
               (\<exists>s. S jb = Inr s \<and>
                  job (db w') = job tx1 @
                    [\<lparr>id' = cuid (cuids tx1), data = s, createdAt = now tx1,
                      updatedAt = now tx1\<rparr>]))"
proof (intro conjI allI impI)
  fix e assume "fn (db w) = Inl e"
  then show "queue this S fn w = (Inl e, w)" by (rule queue_callback_throws)
next
  fix e w' assume "queue this S fn w = (Inl e, w')"
  then show "db w' = db w" by (rule queue_rejected_db)
next
  fix dat jb tx1 r w'
  assume a: "createJob this = readme_createJob \<and> fn (db w) = Inr ((dat, jb), tx1) \<and>
      queue this S fn w = (Inr r, w')"
  then have "queue this S fn w = (Inr r, w')" by simp
  from queue_fulfilled [OF this]
  obtain jb' tx1' s tx2 where f: "fn (db w) = Inr ((r, jb'), tx1')" and s: "S jb' = Inr s"
    and c: "createJob this tx1' s = Inr ((), tx2)" and d: "db w' = tx2"
    by blast
  from a f have eq: "r = dat" "jb' = jb" "tx1' = tx1" by simp_all
  from a c eq have "readme_createJob tx1 s = Inr ((), tx2)" by simp
  note k = readme_createJob_fulfilled [OF this]
  from eq show "r = dat" by simp
  from k d show "business (db w') = business tx1" by simp
  from k d show "deadLetters (db w') = deadLetters tx1" by simp
  from k d s eq show "\<exists>s. S jb = Inr s \<and>
      job (db w') = job tx1 @
        [\<lparr>id' = cuid (cuids tx1), data = s, createdAt = now tx1, updatedAt = now tx1\<rparr>]"
    by simp
qed

theorem queue_atomic_witness:
  "queue example example_stringify
      ((\<lambda>tx. Inl (Error ''No Client found'')) :: (string list, string \<times> ParsedJob) TxCall)
      (world0 [] []) =
     (Inl (Error ''No Client found''), world0 [] []) \<and>
   fst (queue example example_stringify
          (\<lambda>tx. Inr ((''abc'', sendClientLoginLink ''abc''), tx\<lparr>business := business tx @ [''abc'']\<rparr>))
          (world0 [] [])) = Inr ''abc'' \<and>
   business (db (snd (queue example example_stringify
          (\<lambda>tx. Inr ((''abc'', sendClientLoginLink ''abc''), tx\<lparr>business := business tx @ [''abc'']\<rparr>))
          (world0 [] [])))) = [''abc''] \<and>
   job (db (snd (queue example example_stringify
          (\<lambda>tx. Inr ((''abc'', sendClientLoginLink ''abc''), tx\<lparr>business := business tx @ [''abc'']\<rparr>))
          (world0 [] [])))) =
     [\<lparr>id' = cuid 0, data = ''sendClientLoginLink'', createdAt = 100, updatedAt = 100\<rparr>]"
proof -
  let ?bad = "(\<lambda>tx. Inl (Error ''No Client found'')) :: (string list, string \<times> ParsedJob) TxCall"
  let ?fn = "(\<lambda>tx. Inr ((''abc'', sendClientLoginLink ''abc''),
                tx\<lparr>business := business tx @ [''abc'']\<rparr>)) :: (string list, string \<times> ParsedJob) TxCall"
  let ?w = "world0 [] [] :: string list world"
  let ?q = "queue example example_stringify ?fn ?w"
  have b: "?bad (db ?w) = Inl (Error ''No Client found'')" by simp
  have c: "createJob example = readme_createJob" by (simp add: example_def)
  have f: "?fn (db ?w) = Inr ((''abc'', sendClientLoginLink ''abc''),
      (db ?w)\<lparr>business := business (db ?w) @ [''abc'']\<rparr>)" by simp
  have q1: "fst ?q = Inr ''abc''"
    by (simp add: queue_def transaction_def example_def example_stringify_def
        readme_createJob_def job_create_def outage_def cuid_def)
  have q: "?q = (Inr ''abc'', snd ?q)"
    by (rule prod_eqI) (simp_all add: q1)
  from queue_atomic [of ?bad ?w example example_stringify] b
  have p1: "queue example example_stringify ?bad ?w = (Inl (Error ''No Client found''), ?w)"
    by blast
  from queue_atomic [of ?fn ?w example example_stringify] c f q
  have p2: "business (db (snd ?q)) = business ((db ?w)\<lparr>business := business (db ?w) @ [''abc'']\<rparr>) \<and>
      (\<exists>s. example_stringify (sendClientLoginLink ''abc'') = Inr s \<and>
        job (db (snd ?q)) = job ((db ?w)\<lparr>business := business (db ?w) @ [''abc'']\<rparr>) @
          [\<lparr>id' = cuid (cuids ((db ?w)\<lparr>business := business (db ?w) @ [''abc'']\<rparr>)), data = s,
            createdAt = now ((db ?w)\<lparr>business := business (db ?w) @ [''abc'']\<rparr>),
            updatedAt = now ((db ?w)\<lparr>business := business (db ?w) @ [''abc'']\<rparr>)\<rparr>])"
    by blast
  from p1 p2 q1 show ?thesis by (simp add: example_stringify_def)
qed

section \<open>The order of the two writes of a quarantine\<close>

text \<open>
  C2, as the code has it. In the quarantine arm the Job row is deleted first and the
  DeadLetter row is created after it. When the delete is rejected the arm ends there, with
  the database unchanged and no dead letter. When the delete fulfils, the arm goes on with
  \<open>deadLetters.create\<close> from a world in which the job is gone from the queue and the
  table of dead letters is still the old one.
\<close>

theorem quarantine_deletes_first:
  fixes jb :: "'z Input_scheme" and v :: "'b world"
  assumes "client (job_delete (id' jb)) (error' lg (''An error occured: '' @ toString err) v) = (x, v1)"
  shows "(\<forall>e. x = Inl e \<longrightarrow> run_onLeft lg jb err v = (Inl e, v1) \<and> db v1 = db v) \<and>
         (x = Inr () \<longrightarrow>
            run_onLeft lg jb err v = client (deadLetters_create (id' jb) (data jb)) v1 \<and>
            id' jb \<notin> set (map id' (job (db v1))) \<and>
            deadLetters (db v1) = deadLetters (db v))"
proof (intro conjI allI impI)
  fix e assume "x = Inl e"
  with assms show "run_onLeft lg jb err v = (Inl e, v1)"
    by (simp add: run_onLeft_delete_rejected)
  from assms \<open>x = Inl e\<close> show "db v1 = db v"
    using client_rejected_db by fastforce
next
  assume r: "x = Inr ()"
  with assms show "run_onLeft lg jb err v = client (deadLetters_create (id' jb) (data jb)) v1"
    by (simp add: run_onLeft_delete_fulfilled)
  from assms r have f: "job (db v1) = filter (\<lambda>r. id' r \<noteq> id' jb) (job (db v))"
      and d: "deadLetters (db v1) = deadLetters (db v)"
    using client_job_delete_fulfilled by fastforce+
  from f show "id' jb \<notin> set (map id' (job (db v1)))" by auto
  from d show "deadLetters (db v1) = deadLetters (db v)" .
qed

theorem quarantine_deletes_first_witness:
  "run_onLeft Console (pending ''j1'' ''garbage'' 1) (Error ''unknown job type'')
       (world0 [pending ''j1'' ''garbage'' 1] []) =
     client (deadLetters_create ''j1'' ''garbage'')
       (snd (client (job_delete ''j1'')
          (error' Console (''An error occured: '' @ toString (Error ''unknown job type''))
             (world0 [pending ''j1'' ''garbage'' 1] [])))) \<and>
   ''j1'' \<notin> set (map id' (job (db (snd (client (job_delete ''j1'')
          (error' Console (''An error occured: '' @ toString (Error ''unknown job type''))
             (world0 [pending ''j1'' ''garbage'' 1] []))))))) \<and>
   deadLetters (db (snd (client (job_delete ''j1'')
          (error' Console (''An error occured: '' @ toString (Error ''unknown job type''))
             (world0 [pending ''j1'' ''garbage'' 1] []))))) = []"
proof -
  let ?jb = "pending ''j1'' ''garbage'' 1"
  let ?c = "client (job_delete (id' ?jb))
      (error' Console (''An error occured: '' @ toString (Error ''unknown job type''))
         (world0 [?jb] []))"
  have h: "?c = (Inr (), snd ?c)"
    by (simp add: client_def job_delete_def outage_def pending_def)
  show ?thesis
    using quarantine_deletes_first [OF h] by (simp add: pending_def)
qed

text \<open>
  C2 as stated (the dead letter first, the job never absent while its dead letter does not
  exist) fails: a job whose payload does not parse, with the store unreachable at the third
  call (\<open>deadLetters.create\<close>), ends in neither table.
\<close>

theorem job_gone_before_dead_letter_counterexample:
  "job (db (snd (snd (run_cycle example (handleParsedJobs example_sendLink)
       (world0 [pending ''j1'' ''garbage'' 1] [False, False, True]))))) = [] \<and>
   deadLetters (db (snd (snd (run_cycle example (handleParsedJobs example_sendLink)
       (world0 [pending ''j1'' ''garbage'' 1] [False, False, True]))))) = []"
  by (simp add: run_eval)

section \<open>Parse and handler failures\<close>

text \<open>
  C3. A fetched job whose parse gives a \<open>Left\<close>, or whose handler rejects, is resolved
  by the cycle itself. The promise that \<open>run\<close> returns fulfils. With the store reachable
  for the two writes, the job still in the queue and no dead letter of its identifier yet,
  the task that \<open>run\<close> started fulfils too, the job's rows are gone from the queue, and
  one dead letter has been added.
\<close>

theorem failure_becomes_dead_letter:
  assumes lg: "log this = Some lg"
    and fetched: "getJob this (info lg ''Attempting to find job'' w) = (Inr (Some jb), w1)"
    and failed: "(parseJob this jb = Inr (Left err) \<and>
                    w3 = info lg (''Running job with id '' @ id' jb) w1) \<or>
                 (\<exists>p reason. parseJob this jb = Inr (Right p) \<and>
                    handleJobs p (info lg (''Running job with id '' @ id' jb) w1) = (Inl reason, w3) \<and>
                    err = Error (''handling job failed: '' @ toString reason))"
    and reachable: "\<not> outage w3" "\<not> outage (tick w3)"
    and pending: "id' jb \<in> set (map id' (job (db w3)))"
    and fresh: "id' jb \<notin> set (map id' (deadLetters (db w3)))"
    and final: "w5 = snd (snd (run_cycle this handleJobs w))"
  shows "returned (run this handleJobs w) = Inr () \<and>
         fst (snd (run_cycle this handleJobs w)) = Some (Inr ()) \<and>
         job (db w5) = filter (\<lambda>r. id' r \<noteq> id' jb) (job (db w3)) \<and>
         id' jb \<notin> set (map id' (job (db w5))) \<and>
         deadLetters (db w5) = deadLetters (db w3) @
           [\<lparr>id' = id' jb, data = data jb, createdAt = now (db w3), updatedAt = now (db w3)\<rparr>]"
proof -
  let ?v2 = "info lg (''Running job with id '' @ id' jb) w1"
  from failed obtain parsedJob where pe: "parseJob this jb = Inr parsedJob"
    and fe: "(parsedJob = Left err \<and> w3 = ?v2) \<or>
       (\<exists>p reason. parsedJob = Right p \<and> handleJobs p ?v2 = (Inl reason, w3) \<and>
          err = Error (''handling job failed: '' @ toString reason))"
    by blast
  have c: "run_cycle this handleJobs w =
      (Inr (), Some (fst (process handleJobs lg jb parsedJob ?v2)),
       snd (process handleJobs lg jb parsedJob ?v2))"
    by (rule run_cycle_found [OF lg fetched pe])
  have p: "process handleJobs lg jb parsedJob ?v2 = run_onLeft lg jb err w3"
    using fe by (rule process_failed)
  have w5: "w5 = snd (run_onLeft lg jb err w3)"
    unfolding final c p by simp
  have fl: "fst (snd (run_cycle this handleJobs w)) = Some (fst (run_onLeft lg jb err w3))"
    unfolding c p by simp
  have r: "returned (run this handleJobs w) = Inr ()"
    by (simp add: run_found [OF lg fetched pe])
  note b = run_onLeft_both_writes [OF reachable pending fresh, of lg err]
  from b have j: "job (db w5) = filter (\<lambda>r. id' r \<noteq> id' jb) (job (db w3))"
    by (simp add: w5)
  from j have "id' jb \<notin> set (map id' (job (db w5)))" by auto
  with b j r fl show ?thesis by (simp add: w5)
qed

theorem failure_becomes_dead_letter_witness:
  "returned (run example (handleParsedJobs example_sendLink)
       (world0 [pending ''j1'' ''garbage'' 1] [])) = Inr () \<and>
   fst (snd (run_cycle example (handleParsedJobs example_sendLink)
       (world0 [pending ''j1'' ''garbage'' 1] []))) = Some (Inr ()) \<and>
   job (db (snd (snd (run_cycle example (handleParsedJobs example_sendLink)
       (world0 [pending ''j1'' ''garbage'' 1] []))))) = [] \<and>
   deadLetters (db (snd (snd (run_cycle example (handleParsedJobs example_sendLink)
       (world0 [pending ''j1'' ''garbage'' 1] []))))) =
     [\<lparr>id' = ''j1'', data = ''garbage'', createdAt = 100, updatedAt = 100\<rparr>]"
proof -
  let ?jb = "pending ''j1'' ''garbage'' 1"
  let ?w = "world0 [?jb] []"
  let ?w1 = "tick (info Console ''Attempting to find job'' ?w)"
  let ?w3 = "info Console (''Running job with id '' @ id' ?jb) ?w1"
  have lg: "log example = Some Console" by (simp add: example_def)
  have fetched: "getJob example (info Console ''Attempting to find job'' ?w) = (Inr (Some ?jb), ?w1)"
    by (simp add: example_def readme_getJob_reachable outage_def)
  have failed: "(parseJob example ?jb = Inr (Left (Error ''unknown job type'')) \<and> ?w3 = ?w3) \<or>
      (\<exists>p reason. parseJob example ?jb = Inr (Right p) \<and>
         handleParsedJobs example_sendLink p ?w3 = (Inl reason, ?w3) \<and>
         Error ''unknown job type'' = Error (''handling job failed: '' @ toString reason))"
    by (simp add: example_def example_parseJob_def pending_def)
  have reachable: "\<not> outage ?w3" "\<not> outage (tick ?w3)" by (simp_all add: outage_def)
  have pending: "id' ?jb \<in> set (map id' (job (db ?w3)))" by simp
  have fresh: "id' ?jb \<notin> set (map id' (deadLetters (db ?w3)))" by simp
  show ?thesis
    using failure_becomes_dead_letter [where handleJobs = "handleParsedJobs example_sendLink",
        OF lg fetched failed reachable pending fresh refl]
    by (simp add: pending_def)
qed

section \<open>What a dead letter carries\<close>

text \<open>
  C4. For a fetched job whose parse gave a \<open>Left\<close> or whose handler rejected, the
  quarantine writes a dead letter exactly when the store accepts its two writes (reachable
  for each, the job still in the queue, no dead letter of that identifier yet), and that is
  when the task fulfils. The dead letter is then one new row at the end of the table,
  with the identifier of the job and its raw \<open>data\<close>, as fetched: not the parsed form,
  not a new identifier. In every other case the table of dead letters is as it was.
\<close>

theorem dead_letter_copies_job:
  assumes lg: "log this = Some lg"
    and fetched: "getJob this (info lg ''Attempting to find job'' w) = (Inr (Some jb), w1)"
    and failed: "(parseJob this jb = Inr (Left err) \<and>
                    w3 = info lg (''Running job with id '' @ id' jb) w1) \<or>
                 (\<exists>p reason. parseJob this jb = Inr (Right p) \<and>
                    handleJobs p (info lg (''Running job with id '' @ id' jb) w1) = (Inl reason, w3) \<and>
                    err = Error (''handling job failed: '' @ toString reason))"
    and final: "w5 = snd (snd (run_cycle this handleJobs w))"
  shows "(fst (snd (run_cycle this handleJobs w)) = Some (Inr ()) \<longleftrightarrow>
            \<not> outage w3 \<and> id' jb \<in> set (map id' (job (db w3))) \<and>
            \<not> outage (tick w3) \<and> id' jb \<notin> set (map id' (deadLetters (db w3)))) \<and>
         deadLetters (db w5) =
           (if fst (snd (run_cycle this handleJobs w)) = Some (Inr ())
            then deadLetters (db w3) @
              [\<lparr>id' = id' jb, data = data jb, createdAt = now (db w3), updatedAt = now (db w3)\<rparr>]
            else deadLetters (db w3))"
proof -
  let ?v2 = "info lg (''Running job with id '' @ id' jb) w1"
  from failed obtain parsedJob where pe: "parseJob this jb = Inr parsedJob"
    and fe: "(parsedJob = Left err \<and> w3 = ?v2) \<or>
       (\<exists>p reason. parsedJob = Right p \<and> handleJobs p ?v2 = (Inl reason, w3) \<and>
          err = Error (''handling job failed: '' @ toString reason))"
    by blast
  have c: "run_cycle this handleJobs w =
      (Inr (), Some (fst (process handleJobs lg jb parsedJob ?v2)),
       snd (process handleJobs lg jb parsedJob ?v2))"
    by (rule run_cycle_found [OF lg fetched pe])
  have p: "process handleJobs lg jb parsedJob ?v2 = run_onLeft lg jb err w3"
    using fe by (rule process_failed)
  have w5: "w5 = snd (run_onLeft lg jb err w3)"
    unfolding final c p by simp
  have fl: "fst (snd (run_cycle this handleJobs w)) = Some (Inr ()) \<longleftrightarrow>
      fst (run_onLeft lg jb err w3) = Inr ()"
    unfolding c p by simp
  show ?thesis
    unfolding fl w5
    using run_onLeft_fulfils_iff [of lg jb err w3] run_onLeft_deadLetters [of lg jb err w3]
    by simp
qed

theorem dead_letter_copies_job_witness:
  "fst (snd (run_cycle example (handleParsedJobs example_sendLink)
       (world0 [pending ''j2'' ''reticulateSplines'' 2] []))) = Some (Inr ()) \<and>
   deadLetters (db (snd (snd (run_cycle example (handleParsedJobs example_sendLink)
       (world0 [pending ''j2'' ''reticulateSplines'' 2] []))))) =
     [\<lparr>id' = ''j2'', data = ''reticulateSplines'', createdAt = 100, updatedAt = 100\<rparr>]"
proof -
  let ?jb = "pending ''j2'' ''reticulateSplines'' 2"
  let ?w = "world0 [?jb] []"
  let ?w1 = "tick (info Console ''Attempting to find job'' ?w)"
  let ?w3 = "info Console (''Running job with id '' @ id' ?jb) ?w1"
  let ?err = "Error (''handling job failed: '' @
                toString (Error ''reticulateSplines is not implemented yet!''))"
  have lg: "log example = Some Console" by (simp add: example_def)
  have fetched: "getJob example (info Console ''Attempting to find job'' ?w) = (Inr (Some ?jb), ?w1)"
    by (simp add: example_def readme_getJob_reachable outage_def)
  have "parseJob example ?jb = Inr (Right (reticulateSplines ''j2''))"
    by (simp add: example_def example_parseJob_def pending_def)
  moreover have "handleParsedJobs example_sendLink (reticulateSplines ''j2'') ?w3 =
      (Inl (Error ''reticulateSplines is not implemented yet!''), ?w3)"
    by (simp add: handleParsedJobs_def)
  ultimately have failed: "(parseJob example ?jb = Inr (Left ?err) \<and> ?w3 = ?w3) \<or>
      (\<exists>p reason. parseJob example ?jb = Inr (Right p) \<and>
         handleParsedJobs example_sendLink p ?w3 = (Inl reason, ?w3) \<and>
         ?err = Error (''handling job failed: '' @ toString reason))"
    by blast
  have accepted: "\<not> outage ?w3 \<and> id' ?jb \<in> set (map id' (job (db ?w3))) \<and>
      \<not> outage (tick ?w3) \<and> id' ?jb \<notin> set (map id' (deadLetters (db ?w3)))"
    by (simp add: outage_def)
  show ?thesis
    using dead_letter_copies_job [where handleJobs = "handleParsedJobs example_sendLink",
        OF lg fetched failed refl] accepted
    by (simp add: pending_def)
qed

section \<open>Failures of the store\<close>

text \<open>
  C5, as the code has it. When \<open>getJob\<close> rejects, the promise that \<open>run\<close> returns
  rejects with the same error, and nothing is processed. When the delete of a resolution
  (of either arm) is rejected, the database is left as it was: the job stays pending and no
  dead letter is written. When the delete fulfils and the create of the dead letter is
  rejected, the job is gone from the queue and no dead letter has been added.
\<close>

theorem fetch_rejects_and_failed_delete_keeps_job:
  fixes this :: "('b, 'jobs, 'z, 'dl) DoctorJobs" and jb :: "'y Input_scheme"
  assumes lg: "log this = Some lg"
  shows "(\<forall>e w1. getJob this (info lg ''Attempting to find job'' w) = (Inl e, w1) \<longrightarrow>
            run_cycle this handleJobs w = (Inl e, None, w1)) \<and>
         (\<forall>e v1. client (job_delete (id' jb))
                    (error' lg (''An error occured: '' @ toString err) v) = (Inl e, v1) \<longrightarrow>
            db (snd (run_onLeft lg jb err (v :: 'b world))) = db v) \<and>
         (\<forall>e v1. client (job_delete (id' jb))
                    (info lg (''Finished processing job with id '' @ id' jb) v) = (Inl e, v1) \<longrightarrow>
            db (snd (run_onRight lg jb () v)) = db v) \<and>
         (\<forall>e v1 v2. client (job_delete (id' jb))
                    (error' lg (''An error occured: '' @ toString err) v) = (Inr (), v1) \<and>
                  client (deadLetters_create (id' jb) (data jb)) v1 = (Inl e, v2) \<longrightarrow>
            id' jb \<notin> set (map id' (job (db (snd (run_onLeft lg jb err v))))) \<and>
            deadLetters (db (snd (run_onLeft lg jb err v))) = deadLetters (db v))"
proof (intro conjI allI impI)
  fix e w1
  assume "getJob this (info lg ''Attempting to find job'' w) = (Inl e, w1)"
  then show "run_cycle this handleJobs w = (Inl e, None, w1)"
    by (simp add: run_cycle_def run_fetch_rejected [OF lg])
next
  fix e v1
  assume a: "client (job_delete (id' jb))
      (error' lg (''An error occured: '' @ toString err) v) = (Inl e, v1)"
  then have "run_onLeft lg jb err v = (Inl e, v1)" by (rule run_onLeft_delete_rejected)
  moreover from a have "db v1 = db v" using client_rejected_db by fastforce
  ultimately show "db (snd (run_onLeft lg jb err v)) = db v" by simp
next
  fix e v1
  assume a: "client (job_delete (id' jb))
      (info lg (''Finished processing job with id '' @ id' jb) v) = (Inl e, v1)"
  then have "db v1 = db v" using client_rejected_db by fastforce
  with a show "db (snd (run_onRight lg jb () v)) = db v" by (simp add: run_onRight_def)
next
  fix e v1 v2
  assume a: "client (job_delete (id' jb))
        (error' lg (''An error occured: '' @ toString err) v) = (Inr (), v1) \<and>
      client (deadLetters_create (id' jb) (data jb)) v1 = (Inl e, v2)"
  then have r: "run_onLeft lg jb err v = (Inl e, v2)"
    by (simp add: run_onLeft_delete_fulfilled)
  from a have f: "job (db v1) = filter (\<lambda>r. id' r \<noteq> id' jb) (job (db v))"
      and d: "deadLetters (db v1) = deadLetters (db v)"
    using client_job_delete_fulfilled by fastforce+
  from a have k: "db v2 = db v1" using client_rejected_db by fastforce
  from f k r show "id' jb \<notin> set (map id' (job (db (snd (run_onLeft lg jb err v)))))" by auto
  from d k r show "deadLetters (db (snd (run_onLeft lg jb err v))) = deadLetters (db v)" by simp
qed

theorem fetch_rejects_and_failed_delete_keeps_job_witness:
  "run_cycle example (handleParsedJobs example_sendLink)
       (world0 [pending ''j2'' ''reticulateSplines'' 2] [True]) =
     (Inl (PrismaError ''store unreachable''), None,
      tick (info Console ''Attempting to find job''
              (world0 [pending ''j2'' ''reticulateSplines'' 2] [True]))) \<and>
   db (snd (run_onLeft Console (pending ''j2'' ''reticulateSplines'' 2) (Error ''boom'')
              (world0 [pending ''j2'' ''reticulateSplines'' 2] [True]))) =
     db (world0 [pending ''j2'' ''reticulateSplines'' 2] [True]) \<and>
   ''j2'' \<notin> set (map id' (job (db (snd (run_onLeft Console
              (pending ''j2'' ''reticulateSplines'' 2) (Error ''boom'')
              (world0 [pending ''j2'' ''reticulateSplines'' 2] [False, True]))))))"
proof -
  let ?jb = "pending ''j2'' ''reticulateSplines'' 2"
  let ?h = "handleParsedJobs example_sendLink"
  let ?w = "world0 [?jb] [True]"
  let ?u = "world0 [?jb] [False, True]"
  let ?m = "''An error occured: '' @ toString (Error ''boom'')"
  have lg: "log example = Some Console" by (simp add: example_def)
  have g: "getJob example (info Console ''Attempting to find job'' ?w) =
      (Inl (PrismaError ''store unreachable''), tick (info Console ''Attempting to find job'' ?w))"
    by (simp add: example_def readme_getJob_outage outage_def)
  have d1: "client (job_delete (id' ?jb)) (error' Console ?m ?w) =
      (Inl (PrismaError ''store unreachable''), tick (error' Console ?m ?w))"
    by (simp add: client_outage outage_def)
  have d2: "client (job_delete (id' ?jb)) (error' Console ?m ?u) =
      (Inr (), snd (client (job_delete (id' ?jb)) (error' Console ?m ?u)))"
    by (simp add: client_def job_delete_def outage_def pending_def)
  have c2: "client (deadLetters_create (id' ?jb) (data ?jb))
        (snd (client (job_delete (id' ?jb)) (error' Console ?m ?u))) =
      (Inl (PrismaError ''store unreachable''),
       snd (client (deadLetters_create (id' ?jb) (data ?jb))
         (snd (client (job_delete (id' ?jb)) (error' Console ?m ?u)))))"
    by (simp add: client_def job_delete_def outage_def pending_def)
  from fetch_rejects_and_failed_delete_keeps_job
         [OF lg, where w = "?w" and handleJobs = "?h" and jb = "?jb" and v = "?w"
            and err = "Error ''boom''"] g d1
  have p1: "run_cycle example ?h ?w =
      (Inl (PrismaError ''store unreachable''), None,
       tick (info Console ''Attempting to find job'' ?w))"
    and p2: "db (snd (run_onLeft Console ?jb (Error ''boom'') ?w)) = db ?w"
    by blast+
  from fetch_rejects_and_failed_delete_keeps_job
         [OF lg, where w = "?w" and handleJobs = "?h" and jb = "?jb" and v = "?u"
            and err = "Error ''boom''"] d2 c2
  have p3: "id' ?jb \<notin> set (map id' (job (db (snd (run_onLeft Console ?jb (Error ''boom'') ?u)))))"
    by blast
  from p1 p2 p3 show ?thesis by (simp add: pending_def)
qed

text \<open>
  C5 as stated (a failed write of the resolution leaves the job pending) fails: a job
  whose handler throws, with the store unreachable at \<open>deadLetters.create\<close>. The promise
  that \<open>run\<close> returns has fulfilled, the rejection is that of the task \<open>run\<close> left
  floating, and the job is no longer in the queue.
\<close>

theorem write_failure_not_pending_counterexample:
  "returned (run example (handleParsedJobs example_sendLink)
       (world0 [pending ''j2'' ''reticulateSplines'' 2] [False, False, True])) = Inr () \<and>
   fst (snd (run_cycle example (handleParsedJobs example_sendLink)
       (world0 [pending ''j2'' ''reticulateSplines'' 2] [False, False, True]))) =
     Some (Inl (PrismaError ''store unreachable'')) \<and>
   job (db (snd (snd (run_cycle example (handleParsedJobs example_sendLink)
       (world0 [pending ''j2'' ''reticulateSplines'' 2] [False, False, True]))))) = []"
  by (simp add: run_eval)

section \<open>The empty queue\<close>

text \<open>
  C6. On an empty queue a call of \<open>run\<close> should change nothing and raise nothing, for
  every instance. An instance made without the optional logger (as in the README) rejects
  with a TypeError instead, before it has looked at the queue.
\<close>

theorem empty_queue_without_logger:
  "run_cycle (example\<lparr>log := None\<rparr>) (handleParsedJobs example_sendLink) (world0 [] [False]) =
     (Inl (TypeError ''Cannot read properties of undefined (reading 'info')''), None, world0 [] [False])"
  by (simp add: run_cycle_def run_def example_def)

text \<open>
  With a logger and the README's \<open>getJob\<close> on a reachable store, the cycle on an
  empty queue fulfils, starts no task, prints two lines and leaves the database as it was.
\<close>

lemma empty_queue_with_logger:
  fixes this :: "('b, 'jobs, unit Job_ext, 'dl) DoctorJobs"
  assumes lg: "log this = Some lg" and gj: "getJob this = readme_getJob"
    and empty: "job (db w) = []" and reachable: "\<not> outage w"
  shows "run_cycle this handleJobs w =
           (Inr (), None,
            info lg ''No job found'' (tick (info lg ''Attempting to find job'' w))) \<and>
         db (snd (snd (run_cycle this handleJobs w))) = db w"
proof -
  let ?w0 = "info lg ''Attempting to find job'' w"
  have "\<not> outage ?w0" using reachable by simp
  then have f: "getJob this ?w0 = (Inr None, tick ?w0)"
    using empty by (simp add: gj readme_getJob_reachable)
  show ?thesis unfolding run_cycle_none [OF lg f] by simp
qed

section \<open>Oldest first, one job for each call\<close>

text \<open>
  C7. With \<open>getJob\<close> the oldest pending job, calls of \<open>run\<close> one after the other should
  take the jobs in the order of their creation, one job for each call. The code does not:
  with three pending jobs \<open>a\<close>, \<open>b\<close>, \<open>c\<close> (created in that order), a logger, a store
  that is always reachable and the README's \<open>getJob\<close>, a caller that awaits \<open>run\<close> and
  calls it again gets the job \<open>a\<close> in both calls. Both promises fulfil, both calls start
  the task of \<open>a\<close>, the handler runs on \<open>a\<close> twice (the business data notes it twice),
  the delete of the second task is rejected, and \<open>b\<close> and \<open>c\<close> are still pending.
\<close>

theorem second_awaited_call_repeats_job:
  "floating (run example (handleParsedJobs example_sendLink) backlog) =
     Some (process (handleParsedJobs example_sendLink) Console
             (pending ''a'' ''sendClientLoginLink'' 10) (Right (sendClientLoginLink ''a''))) \<and>
   floating (run example (handleParsedJobs example_sendLink)
               (after (run example (handleParsedJobs example_sendLink) backlog))) =
     Some (process (handleParsedJobs example_sendLink) Console
             (pending ''a'' ''sendClientLoginLink'' 10) (Right (sendClientLoginLink ''a''))) \<and>
   fst (run_awaited_twice example (handleParsedJobs example_sendLink) backlog) =
     (Inr (), Some (Inr ())) \<and>
   fst (snd (run_awaited_twice example (handleParsedJobs example_sendLink) backlog)) =
     (Inr (), Some (Inl (PrismaError ''P2025: record to delete does not exist''))) \<and>
   business (db (snd (snd (run_awaited_twice example (handleParsedJobs example_sendLink)
     backlog)))) = [''a'', ''a''] \<and>
   job (db (snd (snd (run_awaited_twice example (handleParsedJobs example_sendLink)
     backlog)))) = [pending ''c'' ''garbage'' 30, pending ''b'' ''reticulateSplines'' 20]"
  by (simp add: run_awaited_twice_def drain_def backlog_def run_eval)

text \<open>
  A payload on which the README's parser throws is a second way: \<open>run\<close> rejects with
  what \<open>JSON.parse\<close> threw, starts no task and leaves the job where it was, so every
  later call fetches the same job again.
\<close>

lemma throwing_parser_keeps_job:
  "run_cycle (example\<lparr>parseJob := readme_parseJob example_JSON_parse\<rparr>)
       (handleParsedJobs example_sendLink)
       (world0 [pending ''j1'' ''{'' 1, pending ''j2'' ''sendClientLoginLink'' 2] []) =
     (Inl (SyntaxError ''Unexpected token''), None,
      info Console ''Running job with id j1''
        (tick (info Console ''Attempting to find job''
           (world0 [pending ''j1'' ''{'' 1, pending ''j2'' ''sendClientLoginLink'' 2] []))))"
  by (simp add: readme_parseJob_def example_JSON_parse_def run_eval)

text \<open>
  What does hold is the order of whole cycles. With the README's \<open>getJob\<close>, a logger, a
  reachable store, a parser that returns for the three jobs and a handler that leaves the
  queue alone and the store reachable: when each cycle (the call and the task it left
  floating) is finished before the next call, three cycles start the tasks of the three
  jobs in the order of their creation and remove one job each, and a fourth call finds
  nothing, whatever the order of the rows in the table.
\<close>

lemma finished_cycles_oldest_first:
  fixes this :: "('b, 'jobs, unit Job_ext, 'dl) DoctorJobs"
  assumes lg: "log this = Some lg" and gj: "getJob this = readme_getJob"
    and rel: "faults w = []"
    and quiet: "\<forall>p u. faults u = [] \<longrightarrow>
                  faults (snd (h p u)) = [] \<and> job (db (snd (h p u))) = job (db u)"
    and parses: "parseJob this j1 = Inr e1" "parseJob this j2 = Inr e2" "parseJob this j3 = Inr e3"
    and jobs: "set (job (db w)) = {j1, j2, j3}" and ids: "distinct (map id' (job (db w)))"
    and times: "createdAt j1 < createdAt j2" "createdAt j2 < createdAt j3"
    and w1: "w1 = snd (snd (run_cycle this h w))"
    and w2: "w2 = snd (snd (run_cycle this h w1))"
    and w3: "w3 = snd (snd (run_cycle this h w2))"
  shows "floating (run this h w) = Some (process h lg j1 e1) \<and> set (job (db w1)) = {j2, j3} \<and>
         floating (run this h w1) = Some (process h lg j2 e2) \<and> set (job (db w2)) = {j3} \<and>
         floating (run this h w2) = Some (process h lg j3 e3) \<and> job (db w3) = [] \<and>
         floating (run this h w3) = None"
proof -
  from times have ne: "j1 \<noteq> j2" "j2 \<noteq> j3" "j1 \<noteq> j3" by auto
  have s0: "set (job (db w)) = insert j1 {j2, j3}" using jobs by simp
  have "j1 \<notin> {j2, j3}" using ne by simp
  moreover have "\<forall>r\<in>{j2, j3}. createdAt j1 < createdAt r" using times by auto
  ultimately have t0: "oldest (job (db w)) = Some j1"
      "set (filter (\<lambda>r. id' r \<noteq> id' j1) (job (db w))) = {j2, j3}"
      "distinct (map id' (filter (\<lambda>r. id' r \<noteq> id' j1) (job (db w))))"
    using take_strict_min [OF s0 ids] by simp_all
  note c0 = cycle_takes_oldest [OF lg gj rel quiet t0(1) parses(1)]
  from c0 have f0: "floating (run this h w) = Some (process h lg j1 e1)"
    and j1: "job (db w1) = filter (\<lambda>r. id' r \<noteq> id' j1) (job (db w))"
    and rel1: "faults w1 = []"
    by (simp_all add: w1)
  have s1: "set (job (db w1)) = insert j2 {j3}" and ids1: "distinct (map id' (job (db w1)))"
    using t0 by (simp_all add: j1)
  have "j2 \<notin> {j3}" using ne by simp
  moreover have "\<forall>r\<in>{j3}. createdAt j2 < createdAt r" using times by auto
  ultimately have t1: "oldest (job (db w1)) = Some j2"
      "set (filter (\<lambda>r. id' r \<noteq> id' j2) (job (db w1))) = {j3}"
      "distinct (map id' (filter (\<lambda>r. id' r \<noteq> id' j2) (job (db w1))))"
    using take_strict_min [OF s1 ids1] by simp_all
  note c1 = cycle_takes_oldest [OF lg gj rel1 quiet t1(1) parses(2)]
  from c1 have f1: "floating (run this h w1) = Some (process h lg j2 e2)"
    and j2: "job (db w2) = filter (\<lambda>r. id' r \<noteq> id' j2) (job (db w1))"
    and rel2: "faults w2 = []"
    by (simp_all add: w2)
  have s2: "set (job (db w2)) = insert j3 {}" and ids2: "distinct (map id' (job (db w2)))"
    using t1 by (simp_all add: j2)
  have t2: "oldest (job (db w2)) = Some j3"
      "set (filter (\<lambda>r. id' r \<noteq> id' j3) (job (db w2))) = {}"
    using take_strict_min [OF s2 ids2] by simp_all
  note c2 = cycle_takes_oldest [OF lg gj rel2 quiet t2(1) parses(3)]
  from c2 have f2: "floating (run this h w2) = Some (process h lg j3 e3)"
    and j3: "job (db w3) = filter (\<lambda>r. id' r \<noteq> id' j3) (job (db w2))"
    and rel3: "faults w3 = []"
    by (simp_all add: w3)
  from t2(2) have e3: "job (db w3) = []" unfolding j3 by simp
  have f3: "floating (run this h w3) = None"
    by (rule cycle_on_empty_queue [OF lg gj rel3 e3])
  from f0 s1 f1 s2 f2 e3 f3 show ?thesis by simp
qed

section \<open>The successful cycle\<close>

text \<open>
  C8. For a fetched job whose parse succeeds and whose handler resolves, the cycle removes
  that Job row and creates no DeadLetter. The promise that \<open>run\<close> returns fulfils; with
  the store reachable for the delete, the table of jobs afterwards is the one the handler
  left without the rows of that identifier, and the table of dead letters is untouched.
  When the row was still there, the delete fulfils.
\<close>

theorem success_deletes_job:
  assumes lg: "log this = Some lg"
    and fetched: "getJob this (info lg ''Attempting to find job'' w) = (Inr (Some jb), w1)"
    and parsed: "parseJob this jb = Inr (Right p)"
    and handled: "handleJobs p (info lg (''Running job with id '' @ id' jb) w1) = (Inr (), w3)"
    and reachable: "\<not> outage w3"
    and final: "w4 = snd (snd (run_cycle this handleJobs w))"
  shows "returned (run this handleJobs w) = Inr () \<and>
         job (db w4) = filter (\<lambda>r. id' r \<noteq> id' jb) (job (db w3)) \<and>
         id' jb \<notin> set (map id' (job (db w4))) \<and>
         deadLetters (db w4) = deadLetters (db w3) \<and>
         (id' jb \<in> set (map id' (job (db w3))) \<longrightarrow>
            fst (snd (run_cycle this handleJobs w)) = Some (Inr ()))"
proof -
  let ?v = "info lg (''Finished processing job with id '' @ id' jb) w3"
  let ?v2 = "info lg (''Running job with id '' @ id' jb) w1"
  have c: "run_cycle this handleJobs w =
      (Inr (), Some (fst (process handleJobs lg jb (Right p) ?v2)),
       snd (process handleJobs lg jb (Right p) ?v2))"
    by (rule run_cycle_found [OF lg fetched parsed])
  have p: "process handleJobs lg jb (Right p) ?v2 = run_onRight lg jb () w3"
    by (rule process_handler_fulfilled [where h = handleJobs, OF handled])
  have w4: "w4 = snd (client (job_delete (id' jb)) ?v)"
    unfolding final c p by (simp add: run_onRight_def)
  have fl: "fst (snd (run_cycle this handleJobs w)) = Some (fst (client (job_delete (id' jb)) ?v))"
    unfolding c p by (simp add: run_onRight_def)
  have j: "job (db w4) = filter (\<lambda>r. id' r \<noteq> id' jb) (job (db w3))"
    using reachable by (simp add: w4 client_job_delete_reachable)
  have d: "deadLetters (db w4) = deadLetters (db w3)"
    by (simp add: w4 client_job_delete_deadLetters)
  have r: "returned (run this handleJobs w) = Inr ()"
    by (simp add: run_found [OF lg fetched parsed])
  have ok: "id' jb \<in> set (map id' (job (db w3))) \<Longrightarrow>
      fst (client (job_delete (id' jb)) ?v) = Inr ()"
    using reachable by (simp add: client_def job_delete_def)
  from j have "id' jb \<notin> set (map id' (job (db w4)))" by auto
  with j d r fl ok show ?thesis by simp
qed

theorem success_deletes_job_witness:
  "job (db (snd (snd (run_cycle example (handleParsedJobs example_sendLink)
       (world0 [pending ''j1'' ''sendClientLoginLink'' 1] []))))) = [] \<and>
   deadLetters (db (snd (snd (run_cycle example (handleParsedJobs example_sendLink)
       (world0 [pending ''j1'' ''sendClientLoginLink'' 1] []))))) = [] \<and>
   fst (snd (run_cycle example (handleParsedJobs example_sendLink)
       (world0 [pending ''j1'' ''sendClientLoginLink'' 1] []))) = Some (Inr ())"
proof -
  let ?jb = "pending ''j1'' ''sendClientLoginLink'' 1"
  let ?w = "world0 [?jb] []"
  let ?w1 = "tick (info Console ''Attempting to find job'' ?w)"
  let ?v2 = "info Console (''Running job with id '' @ id' ?jb) ?w1"
  let ?w3 = "?v2\<lparr>db := (db ?v2)\<lparr>business := business (db ?v2) @ [''j1'']\<rparr>\<rparr>"
  have lg: "log example = Some Console" by (simp add: example_def)
  have fetched: "getJob example (info Console ''Attempting to find job'' ?w) = (Inr (Some ?jb), ?w1)"
    by (simp add: example_def readme_getJob_reachable outage_def)
  have parsed: "parseJob example ?jb = Inr (Right (sendClientLoginLink ''j1''))"
    by (simp add: example_def example_parseJob_def pending_def)
  have handled: "handleParsedJobs example_sendLink (sendClientLoginLink ''j1'') ?v2 = (Inr (), ?w3)"
    by (simp add: handleParsedJobs_def example_sendLink_def)
  have reachable: "\<not> outage ?w3" by (simp add: outage_def)
  show ?thesis
    using success_deletes_job [where handleJobs = "handleParsedJobs example_sendLink", OF lg fetched parsed handled reachable refl]
    by (simp add: pending_def)
qed

section \<open>An instance without a logger\<close>

text \<open>
  C9. For an instance constructed without the optional logger, every call of \<open>run\<close>
  throws on \<open>this.log.info\<close>, its first statement: the returned promise rejects with the
  TypeError, the world is the one the call started in (no call has reached the store,
  whatever the queue holds) and no task is started.
\<close>

theorem run_without_logger_throws:
  assumes "log this = None"
  shows "run this handleJobs w =
           \<lparr>returned = Inl (TypeError ''Cannot read properties of undefined (reading 'info')''),
            after = w, floating = None\<rparr>"
  using assms by (simp add: run_def)

theorem run_without_logger_throws_witness:
  "run (example\<lparr>log := None\<rparr>) (handleParsedJobs example_sendLink) (world0 [] []) =
     \<lparr>returned = Inl (TypeError ''Cannot read properties of undefined (reading 'info')''),
      after = world0 [] [], floating = None\<rparr>"
proof -
  have "log (example\<lparr>log := None\<rparr>) = None" by simp
  then show ?thesis by (rule run_without_logger_throws)
qed

section \<open>The injected \<open>createDeadLetter\<close>\<close>

text \<open>
  C10. Two instances that differ only in the injected \<open>createDeadLetter\<close> behave the
  same on every handler and every world, in the call of \<open>run\<close> and in the whole cycle:
  \<open>run\<close> never calls that function and writes the dead letter through
  \<open>client.deadLetters.create\<close>.
\<close>

theorem run_ignores_createDeadLetter:
  "run (this\<lparr>createDeadLetter := f\<rparr>) handleJobs w = run this handleJobs w \<and>
   run_cycle (this\<lparr>createDeadLetter := f\<rparr>) handleJobs w = run_cycle this handleJobs w"
  by (simp add: run_cycle_def run_def
      cong: option.case_cong sum.case_cong prod.case_cong)

end
